theory Spec2Isabelle
  imports Main
begin

section \<open>The expression model that \<open>dsl.Meta\<close> works on\<close>

text \<open>
  \<open>src/dsl/meta.go\<close> holds one function, \<open>Meta\<close>, with its local closure
  \<open>appendMeta\<close>. It reads the expression being built from \<open>eval.Current()\<close>,
  switches on its dynamic type and either extends a \<open>Meta\<close> map or calls
  \<open>eval.IncompatibleDSL()\<close>. The packages \<open>eval\<close> and \<open>expr\<close> are not part of the
  sources at hand: the struct types are modelled by what \<open>Meta\<close> uses of them (the
  \<open>Meta\<close> field, the \<open>Attribute()\<close> accessor), the two \<open>eval\<close> functions from the
  specification.

  Expressions are reached through pointers and Go maps are reference objects, so both
  live in stores indexed by addresses, in the style of field-indexed heaps: one store
  for the expression structs, one for the map objects.

  The function is modelled twice. The first model takes a slice for the list of its
  elements, the accessor of a composite type for a pointer kept in the struct, and
  the current expression for a struct that exists. The second, in the section on
  Go's memory, has backing arrays, the accessor as a method and pointers that may be
  \<open>nil\<close>; the claims that turn on these (C2, C8 and C10) are settled there.
\<close>

type_synonym addr = nat

text \<open>
  The dynamic type of an expression, as the type switch of \<open>Meta\<close> sees it: the eleven
  pointer types it names, in the order of its cases, then \<open>CompositeExpr\<close> for every
  other type that implements the interface \<open>expr.CompositeExpr\<close> (the switch tries its
  cases in order, so a type among the eleven never reaches that case), then
  \<open>OtherExpr\<close> for every remaining type.
\<close>

datatype kind =
    APIExpr
  | ServerExpr
  | AttributeExpr
  | ResultTypeExpr
  | MethodExpr
  | ServiceExpr
  | HTTPServiceExpr
  | HTTPEndpointExpr
  | RouteExpr
  | HTTPFileServerExpr
  | HTTPResponseExpr
  | CompositeExpr
  | OtherExpr

text \<open>
  \<open>expr.MetaExpr\<close> is \<open>map[string][]string\<close>: a value of that type is \<open>nil\<close> or a
  reference to a map object. The object itself maps a key to a slice of strings; a
  slice is modelled by the list of its elements (a \<open>nil\<close> slice and an empty one are
  both \<open>[]\<close>).
\<close>

type_synonym meta_map = "string \<rightharpoonup> string list"

type_synonym MetaExpr = "addr option"

text \<open>
  An expression struct: its dynamic type, its \<open>Meta\<close> field (\<open>None\<close> is \<open>nil\<close>, also
  for a type that declares no such field), the pointer its \<open>Attribute()\<close> accessor
  returns (\<open>None\<close> is \<open>nil\<close>; only read for a composite type), and all its other
  fields, which \<open>Meta\<close> never names.
\<close>

record 'f expr_node =
  expr_kind :: kind
  expr_Meta :: MetaExpr
  expr_Attribute :: "addr option"
  expr_rest :: 'f

text \<open>
  What \<open>eval.Current()\<close> returns: an expression, given by the address of its struct,
  or the "no context" sentinel. The context stack holds expressions (specification,
  section 3), so the pointer to the current expression is never \<open>nil\<close>.
\<close>

datatype expression = Expr addr | Top

text \<open>
  The classes of recorded definition errors (specification, section 7) and the error
  record: its class and the expression it originates from.
\<close>

datatype error_class =
    IncompatibleContext
  | DuplicateDeclaration
  | UnresolvedReference
  | InvariantViolation

record error_record =
  err_class :: error_class
  err_origin :: expression

text \<open>
  The state of an evaluation run as far as \<open>Meta\<close> touches it: the expression structs
  by address, the map objects by address with the next unused map address (\<open>make\<close>
  takes it), the context stack (top first) and the error collector.
\<close>

record 'f state =
  exprs :: "addr \<Rightarrow> 'f expr_node"
  metas :: "addr \<Rightarrow> meta_map"
  next_meta :: addr
  Stack :: "addr list"
  Errors :: "error_record list"

text \<open>A call returns normally with the new state, or panics (a nil dereference).\<close>

datatype 'f outcome = Normal "'f state" | Panic

section \<open>The collaborators from package \<open>eval\<close>\<close>

text \<open>
  Modelled from the spec: \<open>eval.Current\<close> is missing from the sources. Section 4.1:
  "\<open>Current()\<close> returns the top frame or a sentinel "no context" value".
\<close>

definition Current :: "'f state \<Rightarrow> expression" where
  "Current s = (case Stack s of [] \<Rightarrow> Top | e # _ \<Rightarrow> Expr e)"

text \<open>
  Modelled from the spec: the Error Collector's \<open>Record\<close> is missing from the sources.
  Section 4.5: "\<open>Record(err)\<close> appends".
\<close>

definition Record :: "error_record \<Rightarrow> 'f state \<Rightarrow> 'f state" where
  "Record err s = s\<lparr>Errors := Errors s @ [err]\<rparr>"

text \<open>
  Modelled from the spec: \<open>eval.IncompatibleDSL\<close> is missing from the sources.
  Sections 4.1 and 7: the call signals an "incompatible context" definition error
  through the Error Collector and returns; it is "recorded, call is a no-op,
  evaluation continues".
\<close>

definition IncompatibleDSL :: "'f state \<Rightarrow> 'f state" where
  "IncompatibleDSL s =
     Record \<lparr>err_class = IncompatibleContext, err_origin = Current s\<rparr> s"

section \<open>\<open>appendMeta\<close> and \<open>Meta\<close>\<close>

text \<open>\<open>make(map[string][]string)\<close>: a new, empty map object at the next unused address.\<close>

definition make_map :: "'f state \<Rightarrow> 'f state \<times> addr" where
  "make_map s =
     (s\<lparr>metas := (metas s)(next_meta s := Map.empty), next_meta := Suc (next_meta s)\<rparr>,
      next_meta s)"

text \<open>\<open>m[name]\<close> read from a map object: the zero value, an empty slice, for a missing key.\<close>

definition index_map :: "meta_map \<Rightarrow> string \<Rightarrow> string list" where
  "index_map m name = (case m name of None \<Rightarrow> [] | Some vs \<Rightarrow> vs)"

text \<open>
  The closure \<open>appendMeta\<close> (lines 226-232):
  \<^verbatim>\<open>
  if meta == nil { meta = make(map[string][]string) }
  meta[name] = append(meta[name], value...)
  return meta
  \<close>
  The assignment to \<open>meta[name]\<close> writes into the map object that \<open>meta\<close> refers to.
\<close>

definition appendMeta ::
  "'f state \<Rightarrow> MetaExpr \<Rightarrow> string \<Rightarrow> string list \<Rightarrow> 'f state \<times> MetaExpr" where
  "appendMeta s meta name value =
     (let (s1, r) = (case meta of None \<Rightarrow> make_map s | Some r \<Rightarrow> (s, r));
          m = metas s1 r
      in (s1\<lparr>metas := (metas s1)(r := m(name \<mapsto> index_map m name @ value))\<rparr>, Some r))"

text \<open>
  The statement \<open>e.Meta = appendMeta(e.Meta, name, value...)\<close> that every case of the
  switch but the last runs, for the struct at address \<open>e\<close>.
\<close>

definition assign_Meta :: "'f state \<Rightarrow> addr \<Rightarrow> string \<Rightarrow> string list \<Rightarrow> 'f state" where
  "assign_Meta s e name value =
     (let (s1, meta) = appendMeta s (expr_Meta (exprs s e)) name value
      in s1\<lparr>exprs := (exprs s1)(e := (exprs s1 e)\<lparr>expr_Meta := meta\<rparr>)\<rparr>)"

text \<open>
  \<open>Meta\<close> (lines 225-263). The sentinel of \<open>eval.Current()\<close> matches no case but the
  default. In the composite case \<open>att.Meta\<close> is read first, so a \<open>nil\<close> \<open>att\<close> panics
  before anything is written.
\<close>

definition Meta :: "'f state \<Rightarrow> string \<Rightarrow> string list \<Rightarrow> 'f outcome" where
  "Meta s name value =
     (case Current s of
        Expr e \<Rightarrow>
          (case expr_kind (exprs s e) of
             APIExpr \<Rightarrow> Normal (assign_Meta s e name value)
           | ServerExpr \<Rightarrow> Normal (assign_Meta s e name value)
           | AttributeExpr \<Rightarrow> Normal (assign_Meta s e name value)
           | ResultTypeExpr \<Rightarrow> Normal (assign_Meta s e name value)
           | MethodExpr \<Rightarrow> Normal (assign_Meta s e name value)
           | ServiceExpr \<Rightarrow> Normal (assign_Meta s e name value)
           | HTTPServiceExpr \<Rightarrow> Normal (assign_Meta s e name value)
           | HTTPEndpointExpr \<Rightarrow> Normal (assign_Meta s e name value)
           | RouteExpr \<Rightarrow> Normal (assign_Meta s e name value)
           | HTTPFileServerExpr \<Rightarrow> Normal (assign_Meta s e name value)
           | HTTPResponseExpr \<Rightarrow> Normal (assign_Meta s e name value)
           | CompositeExpr \<Rightarrow>
               (case expr_Attribute (exprs s e) of
                  None \<Rightarrow> Panic
                | Some att \<Rightarrow> Normal (assign_Meta s att name value))
           | OtherExpr \<Rightarrow> Normal (IncompatibleDSL s))
      | Top \<Rightarrow> Normal (IncompatibleDSL s))"

section \<open>Reading the model\<close>

text \<open>The eleven pointer types whose case assigns \<open>e.Meta\<close>, in the order of the switch.\<close>

definition direct_kinds :: "kind list" where
  "direct_kinds =
     [APIExpr, ServerExpr, AttributeExpr, ResultTypeExpr, MethodExpr, ServiceExpr,
      HTTPServiceExpr, HTTPEndpointExpr, RouteExpr, HTTPFileServerExpr, HTTPResponseExpr]"

text \<open>
  The Go read \<open>vs, ok := e.Meta[k]\<close> for the struct at address \<open>e\<close>: \<open>None\<close> when the
  map is \<open>nil\<close> or has no key \<open>k\<close>.
\<close>

definition Meta_entry :: "'f state \<Rightarrow> addr \<Rightarrow> string \<Rightarrow> string list option" where
  "Meta_entry s e k = (case expr_Meta (exprs s e) of None \<Rightarrow> None | Some r \<Rightarrow> metas s r k)"

text \<open>The Go read \<open>e.Meta[k]\<close>: the value sequence under \<open>k\<close>, empty when there is none.\<close>

definition Meta_values :: "'f state \<Rightarrow> addr \<Rightarrow> string \<Rightarrow> string list" where
  "Meta_values s e k = (case Meta_entry s e k of None \<Rightarrow> [] | Some vs \<Rightarrow> vs)"




subsection \<open>A small design to run the calls on\<close>

text \<open>
  An API at address 0, without metadata yet; a composite wrapper at address 1 around
  the attribute at address 2, the wrapper with a map object of its own (map address 0,
  holding \<open>own\<close>), the attribute with another (map address 1, holding \<open>seen\<close>); a
  composite wrapper at address 3 whose accessor yields \<open>nil\<close>; a struct of an
  unsupported type everywhere else. The context stack is the argument.
\<close>

definition bare :: "kind \<Rightarrow> addr option \<Rightarrow> unit expr_node" where
  "bare t att = \<lparr>expr_kind = t, expr_Meta = None, expr_Attribute = att, expr_rest = ()\<rparr>"

definition design :: "addr list \<Rightarrow> unit state" where
  "design stk =
     \<lparr>exprs = (\<lambda>a. if a = 0 then bare APIExpr None
                   else if a = 1 then (bare CompositeExpr (Some 2))\<lparr>expr_Meta := Some 0\<rparr>
                   else if a = 2 then (bare AttributeExpr None)\<lparr>expr_Meta := Some 1\<rparr>
                   else if a = 3 then bare CompositeExpr None
                   else bare OtherExpr None),
      metas = (\<lambda>r. if r = 0 then [''own'' \<mapsto> [''w'']]
                   else if r = 1 then [''seen'' \<mapsto> [''x'']]
                   else Map.empty),
      next_meta = 2,
      Stack = stk,
      Errors = []\<rparr>"

section \<open>The same call on Go's memory\<close>

text \<open>
  What a call may leave changed, and where it may dereference \<open>nil\<close>, depends on more
  of Go than the model above holds. There a slice is the list of its elements, the
  accessor of a composite type is a pointer stored in the struct, and the current
  expression is always a struct. In Go a slice is a window on a backing array that
  \<open>append\<close> writes into when the capacity allows; \<open>e.Attribute()\<close> is an interface
  method, that is, any code the dynamic type declares; the value on the context stack
  is a dynamic type with a pointer that may be \<open>nil\<close>; and a selector \<open>e.Meta\<close> may pass
  through embedded pointers. This section models the same two functions with these
  made explicit.
\<close>

text \<open>
  A slice: its backing array, the index of its first element there, its length and
  its capacity. The \<open>nil\<close> slice has length and capacity 0.
\<close>

record slice =
  sl_array :: addr
  sl_off :: nat
  sl_len :: nat
  sl_cap :: nat

definition nil_slice :: slice where
  "nil_slice = \<lparr>sl_array = 0, sl_off = 0, sl_len = 0, sl_cap = 0\<rparr>"

text \<open>
  A struct: the struct that holds the field which the selector \<open>.Meta\<close> reaches from
  this one (itself when its type declares the field, the struct at the end of the
  embedded pointers when the field is promoted, \<open>None\<close> when one of those pointers is
  \<open>nil\<close>), its own \<open>Meta\<close> field, and all its other fields.
\<close>

record 'f mem_node =
  node_Meta_at :: "addr option"
  node_Meta :: MetaExpr
  node_rest :: 'f

text \<open>
  An interface value of type \<open>eval.Expression\<close>: a dynamic type with a pointer, which
  may be \<open>nil\<close>, or the "no context" sentinel.
\<close>

datatype iface = Pointer kind "addr option" | Sentinel

record mem_error =
  merr_class :: error_class
  merr_origin :: iface

text \<open>
  The memory: structs, map objects (a key refers to a slice) and backing arrays, each
  by address and with the next unused address, then the context stack (top first) and
  the error collector.
\<close>

record 'f mem =
  structs :: "addr \<Rightarrow> 'f mem_node"
  next_struct :: addr
  mapobjs :: "addr \<Rightarrow> string \<rightharpoonup> slice"
  next_mapobj :: addr
  arrays :: "addr \<Rightarrow> nat \<Rightarrow> string"
  next_array :: addr
  Context :: "iface list"
  Recorded :: "mem_error list"

datatype 'f mem_outcome = Returns "'f mem" | Panics

text \<open>
  The method \<open>Attribute()\<close> of the dynamic type of the current expression. The types
  are declared outside the sources at hand, so it is a parameter: from the receiver
  and the memory to the memory it leaves and the pointer it returns, or \<open>None\<close> when
  it panics.
\<close>

type_synonym 'f accessor = "addr option \<Rightarrow> 'f mem \<Rightarrow> ('f mem \<times> addr option) option"

text \<open>
  Modelled from the spec: \<open>eval.Current\<close>, the Error Collector's \<open>Record\<close> and
  \<open>eval.IncompatibleDSL\<close> are missing from the sources; they are as in the first
  section (specification, sections 4.1, 4.5 and 7), on the memory.
\<close>

definition Current_mem :: "'f mem \<Rightarrow> iface" where
  "Current_mem s = (case Context s of [] \<Rightarrow> Sentinel | e # _ \<Rightarrow> e)"

definition Record_mem :: "mem_error \<Rightarrow> 'f mem \<Rightarrow> 'f mem" where
  "Record_mem err s = s\<lparr>Recorded := Recorded s @ [err]\<rparr>"

definition IncompatibleDSL_mem :: "'f mem \<Rightarrow> 'f mem" where
  "IncompatibleDSL_mem s =
     Record_mem \<lparr>merr_class = IncompatibleContext, merr_origin = Current_mem s\<rparr> s"

text \<open>The elements of a slice, read from its backing array.\<close>

definition elems :: "'f mem \<Rightarrow> slice \<Rightarrow> string list" where
  "elems s sl = map (\<lambda>i. arrays s (sl_array sl) (sl_off sl + i)) [0..<sl_len sl]"

text \<open>Writing the values \<open>vs\<close> into the cells of an array from index \<open>i\<close> on.\<close>

definition write_cells :: "(nat \<Rightarrow> string) \<Rightarrow> nat \<Rightarrow> string list \<Rightarrow> nat \<Rightarrow> string" where
  "write_cells cells i vs = (\<lambda>j. if i \<le> j \<and> j < i + length vs then vs ! (j - i) else cells j)"

text \<open>
  The built-in \<open>append(sl, vs...)\<close>. When the capacity suffices it writes the values
  into the backing array past the end of the slice and returns the longer window on
  the same array. Otherwise it takes a new array, copies the elements, adds the values
  and returns a slice on the new array. How much capacity the new array gets is left
  to the implementation: \<open>grow\<close>, from the old capacity and the length needed, is a
  parameter, and the new capacity is at least the length needed.
\<close>

definition append_go ::
  "(nat \<Rightarrow> nat \<Rightarrow> nat) \<Rightarrow> 'f mem \<Rightarrow> slice \<Rightarrow> string list \<Rightarrow> 'f mem \<times> slice" where
  "append_go grow s sl vs =
     (if sl_len sl + length vs \<le> sl_cap sl then
        (s\<lparr>arrays := (arrays s)(sl_array sl :=
              write_cells (arrays s (sl_array sl)) (sl_off sl + sl_len sl) vs)\<rparr>,
         sl\<lparr>sl_len := sl_len sl + length vs\<rparr>)
      else
        (s\<lparr>arrays := (arrays s)(next_array s := write_cells (\<lambda>j. []) 0 (elems s sl @ vs)),
           next_array := Suc (next_array s)\<rparr>,
         \<lparr>sl_array = next_array s, sl_off = 0, sl_len = sl_len sl + length vs,
          sl_cap = max (sl_len sl + length vs) (grow (sl_cap sl) (sl_len sl + length vs))\<rparr>))"

text \<open>\<open>make(map[string][]string)\<close>: a new, empty map object.\<close>

definition make_map_mem :: "'f mem \<Rightarrow> 'f mem \<times> MetaExpr" where
  "make_map_mem s =
     (s\<lparr>mapobjs := (mapobjs s)(next_mapobj s := Map.empty), next_mapobj := Suc (next_mapobj s)\<rparr>,
      Some (next_mapobj s))"

text \<open>
  The read \<open>meta[name]\<close>: the \<open>nil\<close> slice for a missing key, and for a \<open>nil\<close> map, which
  may be read.
\<close>

definition map_index :: "'f mem \<Rightarrow> MetaExpr \<Rightarrow> string \<Rightarrow> slice" where
  "map_index s meta name =
     (case meta of
        None \<Rightarrow> nil_slice
      | Some r \<Rightarrow> (case mapobjs s r name of None \<Rightarrow> nil_slice | Some sl \<Rightarrow> sl))"

text \<open>The assignment \<open>meta[name] = sl\<close>: it panics (\<open>None\<close>) on a \<open>nil\<close> map.\<close>

definition map_assign :: "'f mem \<Rightarrow> MetaExpr \<Rightarrow> string \<Rightarrow> slice \<Rightarrow> 'f mem option" where
  "map_assign s meta name sl =
     (case meta of
        None \<Rightarrow> None
      | Some r \<Rightarrow> Some (s\<lparr>mapobjs := (mapobjs s)(r := (mapobjs s r)(name \<mapsto> sl))\<rparr>))"

text \<open>
  The closure \<open>appendMeta\<close> (lines 226-232), statement by statement; \<open>None\<close> when the
  map assignment panics.
\<close>

definition appendMeta_mem ::
  "(nat \<Rightarrow> nat \<Rightarrow> nat) \<Rightarrow> 'f mem \<Rightarrow> MetaExpr \<Rightarrow> string \<Rightarrow> string list \<Rightarrow>
   ('f mem \<times> MetaExpr) option" where
  "appendMeta_mem grow s meta name value =
     (let (s1, meta1) = (if meta = None then make_map_mem s else (s, meta));
          (s2, sl) = append_go grow s1 (map_index s1 meta1 name) value
      in case map_assign s2 meta1 name sl of
           None \<Rightarrow> None
         | Some s3 \<Rightarrow> Some (s3, meta1))"

text \<open>
  The selector \<open>p.Meta\<close>: the struct that holds the field, or \<open>None\<close> when reaching it
  dereferences \<open>nil\<close>, be it \<open>p\<close> itself or an embedded pointer.
\<close>

definition select_Meta :: "'f mem \<Rightarrow> addr option \<Rightarrow> addr option" where
  "select_Meta s p = (case p of None \<Rightarrow> None | Some a \<Rightarrow> node_Meta_at (structs s a))"

text \<open>
  The statement \<open>p.Meta = appendMeta(p.Meta, name, value...)\<close>. The right-hand side
  reads \<open>p.Meta\<close> before the call, so a \<open>nil\<close> on the way panics before anything is
  written.
\<close>

definition assign_Meta_mem ::
  "(nat \<Rightarrow> nat \<Rightarrow> nat) \<Rightarrow> 'f mem \<Rightarrow> addr option \<Rightarrow> string \<Rightarrow> string list \<Rightarrow> 'f mem_outcome" where
  "assign_Meta_mem grow s p name value =
     (case select_Meta s p of
        None \<Rightarrow> Panics
      | Some h \<Rightarrow>
          (case appendMeta_mem grow s (node_Meta (structs s h)) name value of
             None \<Rightarrow> Panics
           | Some (s1, meta) \<Rightarrow>
               Returns (s1\<lparr>structs := (structs s1)(h := (structs s1 h)\<lparr>node_Meta := meta\<rparr>)\<rparr>)))"

text \<open>
  \<open>Meta\<close> (lines 225-263). The type switch looks at the dynamic type only, never
  through the pointer. In the composite case \<open>e.Attribute()\<close> runs first, whatever it
  does, and the assignment follows on the memory it leaves, for the pointer it returns.
\<close>

definition Meta_mem ::
  "'f accessor \<Rightarrow> (nat \<Rightarrow> nat \<Rightarrow> nat) \<Rightarrow> 'f mem \<Rightarrow> string \<Rightarrow> string list \<Rightarrow> 'f mem_outcome" where
  "Meta_mem Attribute grow s name value =
     (case Current_mem s of
        Pointer t e \<Rightarrow>
          (case t of
             APIExpr \<Rightarrow> assign_Meta_mem grow s e name value
           | ServerExpr \<Rightarrow> assign_Meta_mem grow s e name value
           | AttributeExpr \<Rightarrow> assign_Meta_mem grow s e name value
           | ResultTypeExpr \<Rightarrow> assign_Meta_mem grow s e name value
           | MethodExpr \<Rightarrow> assign_Meta_mem grow s e name value
           | ServiceExpr \<Rightarrow> assign_Meta_mem grow s e name value
           | HTTPServiceExpr \<Rightarrow> assign_Meta_mem grow s e name value
           | HTTPEndpointExpr \<Rightarrow> assign_Meta_mem grow s e name value
           | RouteExpr \<Rightarrow> assign_Meta_mem grow s e name value
           | HTTPFileServerExpr \<Rightarrow> assign_Meta_mem grow s e name value
           | HTTPResponseExpr \<Rightarrow> assign_Meta_mem grow s e name value
           | CompositeExpr \<Rightarrow>
               (case Attribute e s of
                  None \<Rightarrow> Panics
                | Some (s1, att) \<Rightarrow> assign_Meta_mem grow s1 att name value)
           | OtherExpr \<Rightarrow> Returns (IncompatibleDSL_mem s))
      | Sentinel \<Rightarrow> Returns (IncompatibleDSL_mem s))"

subsection \<open>Reading the memory\<close>

text \<open>The reads \<open>vs, ok := h.Meta[k]\<close> and \<open>h.Meta[k]\<close> for the struct at \<open>h\<close>.\<close>

definition entry_mem :: "'f mem \<Rightarrow> addr \<Rightarrow> string \<Rightarrow> string list option" where
  "entry_mem s h k =
     (case node_Meta (structs s h) of
        None \<Rightarrow> None
      | Some r \<Rightarrow> map_option (elems s) (mapobjs s r k))"

definition values_mem :: "'f mem \<Rightarrow> addr \<Rightarrow> string \<Rightarrow> string list" where
  "values_mem s h k = (case entry_mem s h k of None \<Rightarrow> [] | Some vs \<Rightarrow> vs)"

text \<open>The slice under \<open>k\<close> that the assignment for the struct at \<open>h\<close> appends to.\<close>

definition old_slice :: "'f mem \<Rightarrow> addr \<Rightarrow> string \<Rightarrow> slice" where
  "old_slice s h k = map_index s (node_Meta (structs s h)) k"

text \<open>The map object the assignment writes: the one of the field, or a new one.\<close>

definition receiving_map :: "'f mem \<Rightarrow> addr \<Rightarrow> addr" where
  "receiving_map s h = (case node_Meta (structs s h) of None \<Rightarrow> next_mapobj s | Some r \<Rightarrow> r)"

text \<open>
  The cells an \<open>append\<close> of \<open>n\<close> values to the slice \<open>sl\<close> writes when it writes in
  place: the \<open>n\<close> cells past the end of \<open>sl\<close> in its backing array.
\<close>

definition appended_cells :: "slice \<Rightarrow> nat \<Rightarrow> addr \<Rightarrow> nat \<Rightarrow> bool" where
  "appended_cells sl n a i \<longleftrightarrow>
     a = sl_array sl \<and> sl_off sl + sl_len sl \<le> i \<and> i < sl_off sl + sl_len sl + n"

text \<open>A slice that holds none of those cells.\<close>

definition clear_of :: "slice \<Rightarrow> slice \<Rightarrow> nat \<Rightarrow> bool" where
  "clear_of sl' sl n \<longleftrightarrow>
     sl_array sl' \<noteq> sl_array sl \<or>
     sl_off sl' + sl_len sl' \<le> sl_off sl + sl_len sl \<or>
     sl_off sl + sl_len sl + n \<le> sl_off sl'"


subsection \<open>Three implementations of the accessor, and a memory to run the calls on\<close>

text \<open>
  The structs of the examples keep, as their other field, a pointer to an attribute.
  The first accessor returns that pointer and changes nothing. The second returns a
  pointer to a new copy of the struct it points to (the copy has the fields of the
  original, so it shares a map that exists). The third returns the pointer when there
  is one, and otherwise makes a new attribute and stores the pointer to it in the
  receiver first. An implementation of the interface may be any of these.
\<close>

definition stored_Attribute :: "(addr option) accessor" where
  "stored_Attribute p s =
     (case p of None \<Rightarrow> None | Some a \<Rightarrow> Some (s, node_rest (structs s a)))"



definition doubling :: "nat \<Rightarrow> nat \<Rightarrow> nat" where
  "doubling c n = 2 * c"

text \<open>
  The memory of the examples. The struct at 0 has the map object 0, the struct at 4 the
  map object 1. Under \<open>k\<close> both hold a window on the one backing array 0, which has
  four cells: three elements long in map 0, four in map 1. That is how a copy of the
  map entries followed by a call on the copy leaves them. Map 0 also holds, under
  \<open>l\<close>, the window of four. The struct at 1 wraps the attribute at 2, which has no map
  yet; the struct at 3 wraps \<open>nil\<close>. From the struct at 5 the field \<open>Meta\<close> is out of
  reach: the embedded pointer that leads to it is \<open>nil\<close>.
\<close>

definition plain :: "addr \<Rightarrow> MetaExpr \<Rightarrow> addr option \<Rightarrow> (addr option) mem_node" where
  "plain a meta w = \<lparr>node_Meta_at = Some a, node_Meta = meta, node_rest = w\<rparr>"

definition heap :: "iface list \<Rightarrow> (addr option) mem" where
  "heap ctx =
     \<lparr>structs = (\<lambda>a. if a = 0 then plain 0 (Some 0) None
                     else if a = 1 then plain 1 None (Some 2)
                     else if a = 4 then plain 4 (Some 1) None
                     else if a = 5 then (plain 5 None None)\<lparr>node_Meta_at := None\<rparr>
                     else plain a None None),
      next_struct = 6,
      mapobjs = (\<lambda>r. if r = 0
                      then [''k'' \<mapsto> \<lparr>sl_array = 0, sl_off = 0, sl_len = 3, sl_cap = 4\<rparr>,
                            ''l'' \<mapsto> \<lparr>sl_array = 0, sl_off = 0, sl_len = 4, sl_cap = 4\<rparr>]
                      else if r = 1
                      then [''k'' \<mapsto> \<lparr>sl_array = 0, sl_off = 0, sl_len = 4, sl_cap = 4\<rparr>]
                      else Map.empty),
      next_mapobj = 2,
      arrays = (\<lambda>a. if a = 0 then write_cells (\<lambda>j. []) 0 [''a'', ''b'', ''c'', ''d'']
                    else (\<lambda>j. [])),
      next_array = 1,
      Context = ctx,
      Recorded = []\<rparr>"

section \<open>What one assignment \<open>e.Meta = appendMeta(e.Meta, name, value...)\<close> does\<close>

lemma assign_Meta_Stack: "Stack (assign_Meta s e k v) = Stack s"
  by (simp add: assign_Meta_def appendMeta_def make_map_def Let_def split: option.split)

lemma assign_Meta_Errors: "Errors (assign_Meta s e k v) = Errors s"
  by (simp add: assign_Meta_def appendMeta_def make_map_def Let_def split: option.split)

text \<open>Of the structs, only the \<open>Meta\<close> field of the one at \<open>e\<close> is written.\<close>

lemma assign_Meta_exprs:
  "exprs (assign_Meta s e k v) =
     (exprs s)(e := (exprs s e)\<lparr>expr_Meta :=
        Some (case expr_Meta (exprs s e) of None \<Rightarrow> next_meta s | Some r \<Rightarrow> r)\<rparr>)"
  by (simp add: assign_Meta_def appendMeta_def make_map_def Let_def split: option.split)

lemma assign_Meta_kind: "expr_kind (exprs (assign_Meta s a k v) x) = expr_kind (exprs s x)"
  by (simp add: assign_Meta_exprs)

lemma assign_Meta_Attribute:
  "expr_Attribute (exprs (assign_Meta s a k v) x) = expr_Attribute (exprs s x)"
  by (simp add: assign_Meta_exprs)

lemma assign_Meta_rest: "expr_rest (exprs (assign_Meta s a k v) x) = expr_rest (exprs s x)"
  by (simp add: assign_Meta_exprs)

lemma Current_assign_Meta: "Current (assign_Meta s a k v) = Current s"
  by (simp add: Current_def assign_Meta_Stack)

text \<open>Of the map objects, only one is written: a new one when the field was \<open>nil\<close>.\<close>

lemma assign_Meta_metas_nil:
  "expr_Meta (exprs s e) = None \<Longrightarrow>
   metas (assign_Meta s e k v) = (metas s)(next_meta s := [k \<mapsto> v])"
  by (simp add: assign_Meta_def appendMeta_def make_map_def index_map_def Let_def)

lemma assign_Meta_metas_map:
  "expr_Meta (exprs s e) = Some r \<Longrightarrow>
   metas (assign_Meta s e k v) =
     (metas s)(r := (metas s r)(k \<mapsto> index_map (metas s r) k @ v))"
  by (simp add: assign_Meta_def appendMeta_def make_map_def index_map_def Let_def)

lemma Meta_entry_assign_same:
  "Meta_entry (assign_Meta s e k v) e k = Some (Meta_values s e k @ v)"
  by (cases "expr_Meta (exprs s e)")
     (simp_all add: Meta_entry_def Meta_values_def assign_Meta_exprs
        assign_Meta_metas_nil assign_Meta_metas_map index_map_def)

lemma Meta_entry_assign_other_key:
  "k' \<noteq> k \<Longrightarrow> Meta_entry (assign_Meta s e k v) e k' = Meta_entry s e k'"
  by (cases "expr_Meta (exprs s e)")
     (simp_all add: Meta_entry_def assign_Meta_exprs
        assign_Meta_metas_nil assign_Meta_metas_map)

section \<open>The cases of the switch\<close>

lemma switch_direct:
  "Current s = Expr e \<Longrightarrow> expr_kind (exprs s e) \<in> set direct_kinds \<Longrightarrow>
   Meta s k v = Normal (assign_Meta s e k v)"
  by (auto simp add: Meta_def direct_kinds_def)


lemma switch_default:
  "Current s = Expr e \<Longrightarrow> expr_kind (exprs s e) \<notin> set direct_kinds \<Longrightarrow>
   expr_kind (exprs s e) \<noteq> CompositeExpr \<Longrightarrow> Meta s k v = Normal (IncompatibleDSL s)"
  by (cases "expr_kind (exprs s e)") (simp_all add: Meta_def direct_kinds_def)


lemma switch_nil_attribute:
  "Current s = Expr e \<Longrightarrow> expr_kind (exprs s e) = CompositeExpr \<Longrightarrow>
   expr_Attribute (exprs s e) = None \<Longrightarrow> Meta s k v = Panic"
  by (simp add: Meta_def)

section \<open>Exchanging two keys\<close>





text \<open>Two assignments that differ in the key differ in those two slots only.\<close>

lemma assign_Meta_next:
  "next_meta (assign_Meta s a k v) =
     (case expr_Meta (exprs s a) of None \<Rightarrow> Suc (next_meta s) | Some r \<Rightarrow> next_meta s)"
  by (simp add: assign_Meta_def appendMeta_def make_map_def Let_def split: option.split)



section \<open>What \<open>append\<close> does to the memory\<close>

lemma map_write_cells:
  "map (\<lambda>i. write_cells c (off + n) vs (off + i)) [0..<n + length vs] =
   map (\<lambda>i. c (off + i)) [0..<n] @ vs"
proof (rule nth_equalityI)
  show "length (map (\<lambda>i. write_cells c (off + n) vs (off + i)) [0..<n + length vs]) =
      length (map (\<lambda>i. c (off + i)) [0..<n] @ vs)"
    by simp
next
  fix i
  assume "i < length (map (\<lambda>i. write_cells c (off + n) vs (off + i)) [0..<n + length vs])"
  then have i: "i < n + length vs"
    by simp
  show "map (\<lambda>i. write_cells c (off + n) vs (off + i)) [0..<n + length vs] ! i =
      (map (\<lambda>i. c (off + i)) [0..<n] @ vs) ! i"
  proof (cases "i < n")
    case True
    with i show ?thesis
      by (simp add: nth_append write_cells_def)
  next
    case False
    then have "off + i - (off + n) = i - n"
      by simp
    with False i show ?thesis
      by (simp add: nth_append write_cells_def)
  qed
qed

lemma map_new_cells: "map (write_cells c 0 xs) [0..<length xs] = xs"
  by (rule nth_equalityI) (simp_all add: write_cells_def)

lemma elems_append_go:
  "elems (fst (append_go grow s sl vs)) (snd (append_go grow s sl vs)) = elems s sl @ vs"
proof (cases "sl_len sl + length vs \<le> sl_cap sl")
  case True
  then show ?thesis
    using map_write_cells [of "arrays s (sl_array sl)" "sl_off sl" "sl_len sl" vs]
    by (simp add: append_go_def elems_def)
next
  case False
  have "length (elems s sl @ vs) = sl_len sl + length vs"
    by (simp add: elems_def)
  with False show ?thesis
    using map_new_cells [of "\<lambda>j. []" "elems s sl @ vs"]
    by (simp add: append_go_def elems_def [of "_\<lparr>arrays := _, next_array := _\<rparr>"])
qed

lemma append_go_cells:
  "arrays (fst (append_go grow s sl vs)) a i \<noteq> arrays s a i \<Longrightarrow>
   a = next_array s \<or> appended_cells sl (length vs) a i"
  by (auto simp add: append_go_def appended_cells_def write_cells_def split: if_splits)

lemma append_go_fields:
  "structs (fst (append_go grow s sl vs)) = structs s"
  "next_struct (fst (append_go grow s sl vs)) = next_struct s"
  "mapobjs (fst (append_go grow s sl vs)) = mapobjs s"
  "next_mapobj (fst (append_go grow s sl vs)) = next_mapobj s"
  "Context (fst (append_go grow s sl vs)) = Context s"
  "Recorded (fst (append_go grow s sl vs)) = Recorded s"
  by (simp_all add: append_go_def)

lemma write_cells_no_values: "write_cells cells i [] = cells"
  by (auto simp add: write_cells_def fun_eq_iff)

lemma append_go_no_values: "sl_len sl \<le> sl_cap sl \<Longrightarrow> append_go grow s sl [] = (s, sl)"
  by (simp add: append_go_def write_cells_no_values)

text \<open>A slice of allocated memory that holds none of the cells written keeps its elements.\<close>

lemma elems_clear_of:
  assumes "sl_array sl' < next_array s" and "clear_of sl' sl (length vs)"
  shows "elems (fst (append_go grow s sl vs)) sl' = elems s sl'"
proof -
  have "arrays (fst (append_go grow s sl vs)) (sl_array sl') (sl_off sl' + i) =
      arrays s (sl_array sl') (sl_off sl' + i)" if "i < sl_len sl'" for i
  proof (rule ccontr)
    assume "\<not> ?thesis"
    then have "sl_array sl' = next_array s \<or>
        appended_cells sl (length vs) (sl_array sl') (sl_off sl' + i)"
      by (rule append_go_cells)
    with assms that show False
      by (auto simp add: appended_cells_def clear_of_def)
  qed
  then show ?thesis
    by (simp add: elems_def)
qed

section \<open>What one assignment does to the memory\<close>

text \<open>The nil check works: the map assignment of \<open>appendMeta\<close> never panics.\<close>

lemma appendMeta_mem_returns: "appendMeta_mem grow s meta k v \<noteq> None"
  by (cases meta)
     (simp_all add: appendMeta_mem_def make_map_mem_def map_assign_def Let_def
        split: prod.split)

lemma assign_Meta_mem_shape:
  assumes "select_Meta s p = Some h"
  shows "assign_Meta_mem grow s p k v =
    Returns (s\<lparr>structs := (structs s)(h := (structs s h)\<lparr>node_Meta := Some (receiving_map s h)\<rparr>),
      mapobjs := (mapobjs s)(receiving_map s h :=
        (if node_Meta (structs s h) = None then Map.empty else mapobjs s (receiving_map s h))
          (k \<mapsto> snd (append_go grow s (old_slice s h k) v))),
      next_mapobj := (if node_Meta (structs s h) = None then Suc (next_mapobj s)
                      else next_mapobj s),
      arrays := arrays (fst (append_go grow s (old_slice s h k) v)),
      next_array := next_array (fst (append_go grow s (old_slice s h k) v))\<rparr>)"
proof (cases "node_Meta (structs s h)")
  case None
  with assms show ?thesis
    by (simp add: assign_Meta_mem_def appendMeta_mem_def make_map_mem_def map_assign_def
        map_index_def old_slice_def receiving_map_def append_go_def elems_def Let_def)
next
  case (Some r)
  with assms show ?thesis
    by (simp add: assign_Meta_mem_def appendMeta_mem_def make_map_mem_def map_assign_def
        map_index_def old_slice_def receiving_map_def append_go_def elems_def Let_def)
qed

lemma elems_arrays: "arrays s = arrays t \<Longrightarrow> elems s sl = elems t sl"
  by (simp add: elems_def)

lemma values_mem_old_slice: "values_mem s h k = elems s (old_slice s h k)"
  by (simp add: values_mem_def entry_mem_def old_slice_def map_index_def elems_def
      nil_slice_def split: option.split)

text \<open>
  The whole effect of one assignment that reaches the field: the entry under \<open>k\<close>
  holds the old elements and then the values; nothing else is assigned but the
  \<open>Meta\<close> field itself, the one map entry, and array cells: of a new array, or past
  the end of the old slice.
\<close>

lemma assign_Meta_mem_effect:
  assumes "select_Meta s p = Some h"
  shows "\<exists>s'. assign_Meta_mem grow s p k v = Returns s' \<and>
    entry_mem s' h k = Some (values_mem s h k @ v) \<and>
    (\<forall>x. x \<noteq> h \<longrightarrow> structs s' x = structs s x) \<and>
    node_Meta_at (structs s' h) = node_Meta_at (structs s h) \<and>
    node_rest (structs s' h) = node_rest (structs s h) \<and>
    node_Meta (structs s' h) = Some (receiving_map s h) \<and>
    (\<forall>r. r \<noteq> receiving_map s h \<longrightarrow> mapobjs s' r = mapobjs s r) \<and>
    (\<forall>k'. k' \<noteq> k \<longrightarrow> mapobjs s' (receiving_map s h) k' =
        (if node_Meta (structs s h) = None then None else mapobjs s (receiving_map s h) k')) \<and>
    (\<forall>a i. arrays s' a i \<noteq> arrays s a i \<longrightarrow>
        a = next_array s \<or> appended_cells (old_slice s h k) (length v) a i) \<and>
    (\<forall>sl. sl_array sl < next_array s \<and> clear_of sl (old_slice s h k) (length v) \<longrightarrow>
        elems s' sl = elems s sl) \<and>
    next_struct s' = next_struct s \<and> Context s' = Context s \<and> Recorded s' = Recorded s"
proof -
  let ?ap = "append_go grow s (old_slice s h k) v"
  let ?s' = "s\<lparr>structs := (structs s)(h := (structs s h)\<lparr>node_Meta := Some (receiving_map s h)\<rparr>),
      mapobjs := (mapobjs s)(receiving_map s h :=
        (if node_Meta (structs s h) = None then Map.empty else mapobjs s (receiving_map s h))
          (k \<mapsto> snd ?ap)),
      next_mapobj := (if node_Meta (structs s h) = None then Suc (next_mapobj s)
                      else next_mapobj s),
      arrays := arrays (fst ?ap),
      next_array := next_array (fst ?ap)\<rparr>"
  have call: "assign_Meta_mem grow s p k v = Returns ?s'"
    using assms by (rule assign_Meta_mem_shape)
  have arr: "arrays ?s' = arrays (fst ?ap)"
    by simp
  have "elems ?s' (snd ?ap) = elems (fst ?ap) (snd ?ap)"
    using arr by (rule elems_arrays)
  then have "elems ?s' (snd ?ap) = values_mem s h k @ v"
    by (simp only: elems_append_go values_mem_old_slice)
  then have entry: "entry_mem ?s' h k = Some (values_mem s h k @ v)"
    by (simp add: entry_mem_def)
  have cells: "a = next_array s \<or> appended_cells (old_slice s h k) (length v) a i"
    if "arrays ?s' a i \<noteq> arrays s a i" for a i
    using that append_go_cells [of grow s "old_slice s h k" v a i] by simp
  have clear: "elems ?s' sl = elems s sl"
    if "sl_array sl < next_array s \<and> clear_of sl (old_slice s h k) (length v)" for sl
  proof -
    have "elems ?s' sl = elems (fst ?ap) sl"
      using arr by (rule elems_arrays)
    with that show ?thesis
      by (simp add: elems_clear_of)
  qed
  have rest: "(\<forall>x. x \<noteq> h \<longrightarrow> structs ?s' x = structs s x) \<and>
    node_Meta_at (structs ?s' h) = node_Meta_at (structs s h) \<and>
    node_rest (structs ?s' h) = node_rest (structs s h) \<and>
    node_Meta (structs ?s' h) = Some (receiving_map s h) \<and>
    (\<forall>r. r \<noteq> receiving_map s h \<longrightarrow> mapobjs ?s' r = mapobjs s r) \<and>
    (\<forall>k'. k' \<noteq> k \<longrightarrow> mapobjs ?s' (receiving_map s h) k' =
        (if node_Meta (structs s h) = None then None else mapobjs s (receiving_map s h) k')) \<and>
    next_struct ?s' = next_struct s \<and> Context ?s' = Context s \<and> Recorded ?s' = Recorded s"
    by (cases "node_Meta (structs s h)") simp_all
  from call entry cells clear rest show ?thesis
    by blast
qed

section \<open>The cases of the switch, on the memory\<close>

lemma switch_mem_direct:
  "Current_mem s = Pointer t e \<Longrightarrow> t \<in> set direct_kinds \<Longrightarrow>
   Meta_mem Attribute grow s k v = assign_Meta_mem grow s e k v"
  by (auto simp add: Meta_mem_def direct_kinds_def)

lemma switch_mem_composite:
  "Current_mem s = Pointer CompositeExpr e \<Longrightarrow>
   Meta_mem Attribute grow s k v =
     (case Attribute e s of
        None \<Rightarrow> Panics
      | Some (s1, att) \<Rightarrow> assign_Meta_mem grow s1 att k v)"
  by (simp add: Meta_mem_def)

lemma switch_mem_default:
  "Current_mem s = Pointer t e \<Longrightarrow> t \<notin> set direct_kinds \<Longrightarrow> t \<noteq> CompositeExpr \<Longrightarrow>
   Meta_mem Attribute grow s k v = Returns (IncompatibleDSL_mem s)"
  by (cases t) (simp_all add: Meta_mem_def direct_kinds_def)

text \<open>
  What the first model says of an attachment to one of the eleven types holds on the
  memory as well, whether backing arrays are shared or not: the entry under the key
  holds the old elements, then the values.
\<close>

lemma Meta_mem_appends:
  assumes "Current_mem s = Pointer t e" and "t \<in> set direct_kinds"
    and "select_Meta s e = Some h"
  shows "\<exists>s'. Meta_mem Attribute grow s k v = Returns s' \<and>
           entry_mem s' h k = Some (values_mem s h k @ v) \<and> Recorded s' = Recorded s"
proof -
  have "Meta_mem Attribute grow s k v = assign_Meta_mem grow s e k v"
    using assms(1,2) by (rule switch_mem_direct)
  with assign_Meta_mem_effect [OF assms(3), of grow k v] show ?thesis
    by auto
qed


lemma assign_Meta_mem_Panics:
  "assign_Meta_mem grow s p k v = Panics \<longleftrightarrow> select_Meta s p = None"
proof (cases "select_Meta s p")
  case None
  then show ?thesis by (simp add: assign_Meta_mem_def)
next
  case (Some h)
  then show ?thesis by (simp add: assign_Meta_mem_shape)
qed


section \<open>The claims\<close>

text \<open>
  C1. Attachment appends. For a current expression of one of the eleven types, whose
  struct carries the map, the call with key \<open>k\<close> and values \<open>v1\<close>, followed by a
  second call in the same context with key \<open>k\<close> and values \<open>v2\<close>, both return, and the
  sequence under \<open>k\<close> in that struct's map is what was stored before, then \<open>v1\<close>, then
  \<open>v2\<close>: nothing is replaced, reordered or dropped as a duplicate. On a struct without
  metadata, \<open>["a"]\<close> then \<open>["b", "c"]\<close> under \<open>"k"\<close> gives \<open>["a", "b", "c"]\<close>.
\<close>

theorem Meta_twice_concatenates:
  assumes "Current s = Expr e"
    and "expr_kind (exprs s e) \<in> set direct_kinds"
  shows "\<exists>s1 s2. Meta s k v1 = Normal s1 \<and> Meta s1 k v2 = Normal s2 \<and>
           Meta_entry s1 e k = Some (Meta_values s e k @ v1) \<and>
           Meta_entry s2 e k = Some (Meta_values s e k @ v1 @ v2)"
proof -
  let ?s1 = "assign_Meta s e k v1"
  let ?s2 = "assign_Meta ?s1 e k v2"
  have first: "Meta s k v1 = Normal ?s1"
    using assms by (rule switch_direct)
  have cur: "Current ?s1 = Expr e"
    using assms(1) by (simp add: Current_assign_Meta)
  have kind: "expr_kind (exprs ?s1 e) \<in> set direct_kinds"
    using assms(2) by (simp only: assign_Meta_kind)
  have second: "Meta ?s1 k v2 = Normal ?s2"
    using cur kind by (rule switch_direct)
  have one: "Meta_entry ?s1 e k = Some (Meta_values s e k @ v1)"
    by (rule Meta_entry_assign_same)
  have "Meta_values ?s1 e k = Meta_values s e k @ v1"
    by (simp add: Meta_values_def [of ?s1] one)
  then have two: "Meta_entry ?s2 e k = Some (Meta_values s e k @ v1 @ v2)"
    by (simp add: Meta_entry_assign_same)
  from first second one two show ?thesis by blast
qed

theorem Meta_twice_concatenates_witness:
  "Current (design [0]) = Expr 0 \<and>
   expr_kind (exprs (design [0]) 0) \<in> set direct_kinds \<and>
   (\<exists>s1 s2. Meta (design [0]) ''k'' [''a''] = Normal s1 \<and>
      Meta s1 ''k'' [''b'', ''c''] = Normal s2 \<and>
      Meta_entry s2 0 ''k'' = Some [''a'', ''b'', ''c''])"
  using Meta_twice_concatenates [of "design [0]" 0 "''k''" "[''a'']" "[''b'', ''c'']"]
  by (auto simp add: design_def bare_def Current_def direct_kinds_def
      Meta_values_def Meta_entry_def)




text \<open>
  C3. An unsupported context. When the type of the current expression is none of the
  eleven and not composite, the call returns normally, and the state it returns is the
  one it started from with one incompatible-context error, naming the current
  expression, appended to the error collector: no struct and no map object has
  changed.
\<close>

theorem Meta_unsupported_kind:
  assumes "Current s = Expr e"
    and "expr_kind (exprs s e) \<notin> set direct_kinds"
    and "expr_kind (exprs s e) \<noteq> CompositeExpr"
  shows "Meta s k v =
     Normal (s\<lparr>Errors := Errors s @ [\<lparr>err_class = IncompatibleContext, err_origin = Expr e\<rparr>]\<rparr>)"
  using assms by (simp add: switch_default IncompatibleDSL_def Record_def)

theorem Meta_unsupported_kind_witness:
  "Current (design [4]) = Expr 4 \<and>
   expr_kind (exprs (design [4]) 4) \<notin> set direct_kinds \<and>
   expr_kind (exprs (design [4]) 4) \<noteq> CompositeExpr \<and>
   Meta (design [4]) ''k'' [''a''] =
     Normal ((design [4])\<lparr>Errors := [\<lparr>err_class = IncompatibleContext, err_origin = Expr 4\<rparr>]\<rparr>)"
  using Meta_unsupported_kind [of "design [4]" 4 "''k''" "[''a'']"]
  by (simp add: design_def bare_def Current_def direct_kinds_def)

text \<open>
  C4. Every kind of the data model. The kinds the specification names are among the
  eleven types of the switch: API is \<open>APIExpr\<close>, Server \<open>ServerExpr\<close>, Service
  \<open>ServiceExpr\<close>, Method \<open>MethodExpr\<close>, Route \<open>RouteExpr\<close>, FileServer
  \<open>HTTPFileServerExpr\<close>, Response \<open>HTTPResponseExpr\<close>, ResultType \<open>ResultTypeExpr\<close>
  and Attribute \<open>AttributeExpr\<close>. For a current expression of any of the eleven types
  the call returns, has appended the values under the key in that struct's own map,
  and has recorded no error.
\<close>

theorem Meta_direct_kinds:
  assumes "Current s = Expr e"
    and "expr_kind (exprs s e) \<in> set direct_kinds"
  shows "\<exists>s'. Meta s k v = Normal s' \<and>
           Meta_entry s' e k = Some (Meta_values s e k @ v) \<and>
           Errors s' = Errors s"
  using assms by (simp add: switch_direct Meta_entry_assign_same assign_Meta_Errors)

theorem Meta_direct_kinds_witness:
  "Current (design [0]) = Expr 0 \<and>
   expr_kind (exprs (design [0]) 0) \<in> set direct_kinds \<and>
   (\<exists>s'. Meta (design [0]) ''k'' [''a'', ''b''] = Normal s' \<and>
      Meta_entry s' 0 ''k'' = Some [''a'', ''b''] \<and> Errors s' = [])"
  using Meta_direct_kinds [of "design [0]" 0 "''k''" "[''a'', ''b'']"]
  by (auto simp add: design_def bare_def Current_def direct_kinds_def
      Meta_values_def Meta_entry_def)

text \<open>
  C5. Creation on first use. When the \<open>Meta\<close> field of the current expression (of one
  of the eleven types) is \<open>nil\<close>, the call makes a new map object, stores the reference
  to it in the field, and that map holds exactly the key with exactly the given values,
  in order.
\<close>

theorem Meta_creates_map:
  assumes "Current s = Expr e"
    and "expr_kind (exprs s e) \<in> set direct_kinds"
    and "expr_Meta (exprs s e) = None"
  shows "\<exists>s'. Meta s k v = Normal s' \<and>
           expr_Meta (exprs s' e) = Some (next_meta s) \<and>
           metas s' (next_meta s) = [k \<mapsto> v] \<and>
           next_meta s' = Suc (next_meta s)"
  using assms
  by (simp add: switch_direct assign_Meta_exprs assign_Meta_metas_nil assign_Meta_next)

theorem Meta_creates_map_witness:
  "Current (design [0]) = Expr 0 \<and>
   expr_kind (exprs (design [0]) 0) \<in> set direct_kinds \<and>
   expr_Meta (exprs (design [0]) 0) = None \<and>
   (\<exists>s'. Meta (design [0]) ''k'' [''a'', ''b''] = Normal s' \<and>
      expr_Meta (exprs s' 0) = Some 2 \<and>
      metas s' 2 = [''k'' \<mapsto> [''a'', ''b'']] \<and>
      next_meta s' = 3)"
  using Meta_creates_map [of "design [0]" 0 "''k''" "[''a'', ''b'']"]
  by (auto simp add: design_def bare_def Current_def direct_kinds_def)

text \<open>
  C6. No open context. With an empty context stack the call returns normally, and the
  state it returns is the one it started from with one incompatible-context error,
  originating from the sentinel, appended to the error collector: no struct and no map
  object is created or changed.
\<close>

theorem Meta_outside_context:
  assumes "Stack s = []"
  shows "Meta s k v =
     Normal (s\<lparr>Errors := Errors s @ [\<lparr>err_class = IncompatibleContext, err_origin = Top\<rparr>]\<rparr>)"
  using assms by (simp add: Meta_def Current_def IncompatibleDSL_def Record_def)

theorem Meta_outside_context_witness:
  "Stack (design []) = [] \<and>
   Meta (design []) ''k'' [''a''] =
     Normal ((design [])\<lparr>Errors := [\<lparr>err_class = IncompatibleContext, err_origin = Top\<rparr>]\<rparr>)"
  using Meta_outside_context [of "design []" "''k''" "[''a'']"]
  by (simp add: design_def)








text \<open>
  C10. Totality. The claim names one precondition, that the accessor of a composite
  expression does not yield \<open>nil\<close>. The cases of the eleven types dereference the
  current pointer itself to read \<open>e.Meta\<close>: with a \<open>nil\<close> pointer of type \<open>APIExpr\<close>
  as the current expression, which is not composite, the call panics; so it does for
  a result type from which the field is out of reach because an embedded pointer is
  \<open>nil\<close>.
\<close>

theorem Meta_mem_nil_pointer_counterexample:
  "Current_mem (heap [Pointer APIExpr None]) = Pointer APIExpr None \<and>
   Meta_mem stored_Attribute doubling (heap [Pointer APIExpr None]) ''k'' [''a''] = Panics \<and>
   Current_mem (heap [Pointer ResultTypeExpr (Some 5)]) = Pointer ResultTypeExpr (Some 5) \<and>
   Meta_mem stored_Attribute doubling (heap [Pointer ResultTypeExpr (Some 5)]) ''k'' [''a''] =
     Panics"
  by (simp add: Meta_mem_def assign_Meta_mem_def select_Meta_def Current_mem_def heap_def
      plain_def)

text \<open>
  C10, as amended. The call panics in these cases and no others: the current
  expression is of one of the eleven types and its pointer, or an embedded pointer on
  the way to the field \<open>Meta\<close>, is \<open>nil\<close>; or it is of a composite type and its accessor
  panics, or returns a pointer from which the field cannot be reached, \<open>nil\<close> first of
  all. The write into the map never panics, thanks to the \<open>nil\<close> check before it. And
  for every type that is none of the eleven and not composite, whatever the pointer,
  the call returns the memory of the incompatible-context branch.
\<close>

theorem Meta_mem_total:
  "(Meta_mem Attribute grow s k v = Panics \<longleftrightarrow>
      (\<exists>t e. Current_mem s = Pointer t e \<and>
         (t \<in> set direct_kinds \<and> select_Meta s e = None \<or>
          t = CompositeExpr \<and>
            (case Attribute e s of
               None \<Rightarrow> True
             | Some (s1, att) \<Rightarrow> select_Meta s1 att = None)))) \<and>
   (\<forall>t e. Current_mem s = Pointer t e \<longrightarrow> t \<notin> set direct_kinds \<longrightarrow> t \<noteq> CompositeExpr \<longrightarrow>
      Meta_mem Attribute grow s k v = Returns (IncompatibleDSL_mem s))"
proof
  show "Meta_mem Attribute grow s k v = Panics \<longleftrightarrow>
      (\<exists>t e. Current_mem s = Pointer t e \<and>
         (t \<in> set direct_kinds \<and> select_Meta s e = None \<or>
          t = CompositeExpr \<and>
            (case Attribute e s of
               None \<Rightarrow> True
             | Some (s1, att) \<Rightarrow> select_Meta s1 att = None)))"
  proof (cases "Current_mem s")
    case Sentinel
    then show ?thesis by (simp add: Meta_mem_def)
  next
    case (Pointer t e)
    consider "t \<in> set direct_kinds" | "t = CompositeExpr"
      | "t \<notin> set direct_kinds" "t \<noteq> CompositeExpr"
      by blast
    then show ?thesis
    proof cases
      case 1
      then have "t \<noteq> CompositeExpr"
        by (auto simp add: direct_kinds_def)
      with 1 Pointer show ?thesis
        by (simp add: switch_mem_direct assign_Meta_mem_Panics)
    next
      case 2
      then have "t \<notin> set direct_kinds"
        by (simp add: direct_kinds_def)
      with 2 Pointer show ?thesis
        by (simp add: switch_mem_composite assign_Meta_mem_Panics split: option.split)
    next
      case 3
      with Pointer show ?thesis
        by (simp add: switch_mem_default)
    qed
  qed
  show "\<forall>t e. Current_mem s = Pointer t e \<longrightarrow> t \<notin> set direct_kinds \<longrightarrow> t \<noteq> CompositeExpr \<longrightarrow>
      Meta_mem Attribute grow s k v = Returns (IncompatibleDSL_mem s)"
    by (simp add: switch_mem_default)
qed

theorem Meta_mem_total_witness:
  "Current_mem (heap [Pointer CompositeExpr (Some 1)]) = Pointer CompositeExpr (Some 1) \<and>
   stored_Attribute (Some 1) (heap [Pointer CompositeExpr (Some 1)]) =
     Some (heap [Pointer CompositeExpr (Some 1)], Some 2) \<and>
   select_Meta (heap [Pointer CompositeExpr (Some 1)]) (Some 2) \<noteq> None \<and>
   Meta_mem stored_Attribute doubling (heap [Pointer CompositeExpr (Some 1)]) ''k'' [''a'']
     \<noteq> Panics \<and>
   Meta_mem stored_Attribute doubling (heap [Pointer OtherExpr None]) ''k'' [''a''] =
     Returns (IncompatibleDSL_mem (heap [Pointer OtherExpr None]))"
proof -
  let ?m = "heap [Pointer CompositeExpr (Some 1)]"
  let ?o = "heap [Pointer OtherExpr None]"
  have cur: "Current_mem ?m = Pointer CompositeExpr (Some 1)"
    by (simp add: Current_mem_def heap_def)
  have acc: "stored_Attribute (Some 1) ?m = Some (?m, Some 2)"
    by (simp add: stored_Attribute_def heap_def plain_def)
  have sel: "select_Meta ?m (Some 2) \<noteq> None"
    by (simp add: select_Meta_def heap_def plain_def)
  have "Meta_mem stored_Attribute doubling ?m ''k'' [''a''] \<noteq> Panics"
    using Meta_mem_total [of stored_Attribute doubling ?m "''k''" "[''a'']"] cur acc sel
    by (simp add: direct_kinds_def)
  moreover have "Current_mem ?o = Pointer OtherExpr None"
    by (simp add: Current_mem_def heap_def)
  then have "Meta_mem stored_Attribute doubling ?o ''k'' [''a''] =
      Returns (IncompatibleDSL_mem ?o)"
    using Meta_mem_total [of stored_Attribute doubling ?o "''k''" "[''a'']"]
    by (simp add: direct_kinds_def)
  ultimately show ?thesis
    using cur acc sel by simp
qed

end
